theory Spec2Isabelle
  imports
    Complex_Main
    "HOL-Library.Multiset"
    "HOL-Library.Sublist"
    "HOL-Library.Char_ord"
    "HOL-Library.List_Lexorder"
    "HOL-Library.Product_Lexorder"
    "HOL-Library.Option_ord"
begin

section \<open>Python values\<close>

text \<open>
  A Python float is a finite number, an infinity or NaN. Finite floats are idealised as
  reals: rounding and overflow of IEEE doubles are not modelled. Cells of a DataFrame
  column are \<open>pyfloat option\<close>: \<open>None\<close> is Python's \<open>None\<close>, and \<open>pd.isna\<close> holds of
  \<open>None\<close> and of NaN alike. Every numeric column is read as a column of floats: the dtype
  pandas chooses for a column whose cells are all \<open>None\<close> is not modelled.
\<close>

datatype pyfloat = Fin real | PosInf | NegInf | NaN

fun pf_le :: "pyfloat \<Rightarrow> pyfloat \<Rightarrow> bool" where
  "pf_le NaN _ = False"
| "pf_le _ NaN = False"
| "pf_le NegInf _ = True"
| "pf_le _ PosInf = True"
| "pf_le (Fin a) (Fin b) = (a \<le> b)"
| "pf_le _ _ = False"

fun pf_lt :: "pyfloat \<Rightarrow> pyfloat \<Rightarrow> bool" where
  "pf_lt NaN _ = False"
| "pf_lt _ NaN = False"
| "pf_lt (Fin a) (Fin b) = (a < b)"
| "pf_lt NegInf NegInf = False"
| "pf_lt NegInf _ = True"
| "pf_lt PosInf _ = False"
| "pf_lt (Fin a) PosInf = True"
| "pf_lt (Fin a) NegInf = False"

definition isna :: "pyfloat option \<Rightarrow> bool" where
  "isna x = (x = None \<or> x = Some NaN)"

text \<open>Comparison of a cell with a literal; a missing cell compares false, as in pandas.\<close>

definition cell_lt :: "pyfloat option \<Rightarrow> real \<Rightarrow> bool" where
  "cell_lt x c = (case x of None \<Rightarrow> False | Some v \<Rightarrow> pf_lt v (Fin c))"

definition cell_gt :: "pyfloat option \<Rightarrow> real \<Rightarrow> bool" where
  "cell_gt x c = (case x of None \<Rightarrow> False | Some v \<Rightarrow> pf_lt (Fin c) v)"

definition cell_le :: "pyfloat option \<Rightarrow> real \<Rightarrow> bool" where
  "cell_le x c = (case x of None \<Rightarrow> False | Some v \<Rightarrow> pf_le v (Fin c))"

definition cell_ge :: "pyfloat option \<Rightarrow> real \<Rightarrow> bool" where
  "cell_ge x c = (case x of None \<Rightarrow> False | Some v \<Rightarrow> pf_le (Fin c) v)"

section \<open>Python strings\<close>

text \<open>
  Strings are lists of 8-bit characters; the model covers ASCII text. \<open>is_space\<close> is the
  ASCII part of \<open>str.isspace\<close> (tab to carriage return, the four separators 28 to 31 and
  the blank), \<open>is_digit\<close> the ASCII part of a digit character.
\<close>

definition is_space :: "char \<Rightarrow> bool" where
  "is_space c = (let n = (of_char c :: nat) in (9 \<le> n \<and> n \<le> 13) \<or> (28 \<le> n \<and> n \<le> 32))"

definition is_digit :: "char \<Rightarrow> bool" where
  "is_digit c = (let n = (of_char c :: nat) in 48 \<le> n \<and> n \<le> 57)"

text \<open>\<open>s.strip()\<close>\<close>

definition py_strip :: "string \<Rightarrow> string" where
  "py_strip s = rev (dropWhile is_space (rev (dropWhile is_space s)))"

text \<open>\<open>s.split(sep)\<close> for a one-character separator: empty pieces are kept.\<close>

fun split_on :: "char \<Rightarrow> string \<Rightarrow> string list" where
  "split_on sep [] = [[]]"
| "split_on sep (c # cs) =
     (if c = sep then [] # split_on sep cs
      else (case split_on sep cs of
              [] \<Rightarrow> [[c]]
            | w # ws \<Rightarrow> (c # w) # ws))"

text \<open>
  \<open>s.split()\<close>: the maximal runs of non-blank characters. \<open>cur\<close> is the run being read.
\<close>

fun split_ws_from :: "string \<Rightarrow> string \<Rightarrow> string list" where
  "split_ws_from cur [] = (if cur = [] then [] else [cur])"
| "split_ws_from cur (c # cs) =
     (if is_space c
      then (if cur = [] then split_ws_from [] cs else cur # split_ws_from [] cs)
      else split_ws_from (cur @ [c]) cs)"

definition split_ws :: "string \<Rightarrow> string list" where
  "split_ws s = split_ws_from [] s"

text \<open>\<open>s.isdigit()\<close>: at least one character, all of them digits.\<close>

definition isdigit :: "string \<Rightarrow> bool" where
  "isdigit s = (s \<noteq> [] \<and> list_all is_digit s)"

text \<open>\<open>s.replace(c, '')\<close> for a one-character \<open>c\<close>\<close>

definition remove_char :: "char \<Rightarrow> string \<Rightarrow> string" where
  "remove_char c s = filter (\<lambda>x. x \<noteq> c) s"

definition digit_val :: "char \<Rightarrow> nat" where
  "digit_val c = of_char c - 48"

definition nat_of_digits :: "string \<Rightarrow> nat" where
  "nat_of_digits ds = foldl (\<lambda>a c. 10 * a + digit_val c) 0 ds"

definition to_lower :: "char \<Rightarrow> char" where
  "to_lower c =
     (let n = (of_char c :: nat) in if 65 \<le> n \<and> n \<le> 90 then char_of (n + 32) else c)"

text \<open>\<open>str(n)\<close> of an integer.\<close>

function str_nat :: "nat \<Rightarrow> string" where
  "str_nat n =
     (if n < 10 then [char_of (48 + n)]
      else str_nat (n div 10) @ [char_of (48 + n mod 10)])"
  by pat_completeness auto
termination
  by (relation "measure id") auto

declare str_nat.simps [simp del]

definition str_int :: "int \<Rightarrow> string" where
  "str_int i = (if i < 0 then CHR ''-'' # str_nat (nat (- i)) else str_nat (nat i))"

subsection \<open>\<open>float(s)\<close> of a string\<close>

text \<open>
  Underscores may stand between two digits only; \<open>prev\<close> is the character before.
  The result is the text without its underscores, or \<open>None\<close> where Python raises.
\<close>

fun strip_underscores :: "char \<Rightarrow> string \<Rightarrow> string option" where
  "strip_underscores prev [] = (if prev = CHR ''_'' then None else Some [])"
| "strip_underscores prev (c # cs) =
     (if c = CHR ''_''
      then (if is_digit prev then strip_underscores c cs else None)
      else if prev = CHR ''_'' \<and> \<not> is_digit c then None
      else map_option ((#) c) (strip_underscores c cs))"

text \<open>A leading sign: whether it is a minus, and the rest.\<close>

definition split_sign :: "string \<Rightarrow> bool \<times> string" where
  "split_sign s =
     (case s of
        [] \<Rightarrow> (False, [])
      | c # r \<Rightarrow>
          if c = CHR ''-'' then (True, r)
          else if c = CHR ''+'' then (False, r)
          else (False, s))"

definition parse_exponent :: "string \<Rightarrow> int option" where
  "parse_exponent s =
     (let (neg, ds) = split_sign s
      in if isdigit ds
         then Some (if neg then - int (nat_of_digits ds) else int (nat_of_digits ds))
         else None)"

text \<open>
  An unsigned decimal literal: digits, an optional point and digits (at least one digit
  in all), an optional exponent; nothing may follow.
\<close>

definition parse_decimal :: "string \<Rightarrow> real option" where
  "parse_decimal s =
     (let ip = takeWhile is_digit s;
          r1 = dropWhile is_digit s;
          (fp, r2) = (case r1 of
                        [] \<Rightarrow> ([], [])
                      | c # r \<Rightarrow>
                          if c = CHR ''.'' then (takeWhile is_digit r, dropWhile is_digit r)
                          else ([], r1))
      in if ip = [] \<and> fp = [] then None
         else let m = real (nat_of_digits (ip @ fp)) / 10 ^ length fp
              in (case r2 of
                    [] \<Rightarrow> Some m
                  | c # r \<Rightarrow>
                      if c = CHR ''e'' \<or> c = CHR ''E''
                      then (case parse_exponent r of
                              None \<Rightarrow> None
                            | Some e \<Rightarrow>
                                Some (if 0 \<le> e then m * 10 ^ nat e else m / 10 ^ nat (- e)))
                      else None))"

text \<open>
  \<open>float(s)\<close>: \<open>None\<close> is the \<open>ValueError\<close>. Blanks around the literal are dropped;
  \<open>inf\<close>, \<open>infinity\<close> and \<open>nan\<close> are read in any case, with an optional sign.
\<close>

definition py_float :: "string \<Rightarrow> pyfloat option" where
  "py_float s =
     (case strip_underscores (CHR 0x00) s of
        None \<Rightarrow> None
      | Some u \<Rightarrow>
          (let (neg, a) = split_sign (py_strip u);
               l = map to_lower a
           in if l = ''inf'' \<or> l = ''infinity'' then Some (if neg then NegInf else PosInf)
              else if l = ''nan'' then Some NaN
              else map_option (\<lambda>m. Fin (if neg then - m else m)) (parse_decimal a)))"

subsection \<open>Dynamically typed values\<close>

text \<open>The values a record's \<open>value\<close> field holds: \<open>None\<close>, an integer or a string.\<close>

datatype pyval = VNone | VInt int | VStr string

text \<open>Truth value of a Python object.\<close>

definition truthy :: "pyval \<Rightarrow> bool" where
  "truthy v = (case v of VNone \<Rightarrow> False | VInt n \<Rightarrow> n \<noteq> 0 | VStr s \<Rightarrow> s \<noteq> [])"

definition py_str :: "pyval \<Rightarrow> string" where
  "py_str v = (case v of VNone \<Rightarrow> ''None'' | VInt n \<Rightarrow> str_int n | VStr s \<Rightarrow> s)"

text \<open>\<open>float(v)\<close>: \<open>None\<close> where Python raises (\<open>TypeError\<close> for \<open>None\<close>, \<open>ValueError\<close> for text).\<close>

definition float_of :: "pyval \<Rightarrow> pyfloat option" where
  "float_of v =
     (case v of VNone \<Rightarrow> None | VInt n \<Rightarrow> Some (Fin (real_of_int n)) | VStr s \<Rightarrow> py_float s)"

section \<open>Format parsers\<close>

text \<open>
  A record as the three parsers build it (\<open>obs_value\<close> is the key \<open>value\<close>, \<open>obs_unit\<close>
  the key \<open>unit\<close>). The keys \<open>uva_value\<close> and \<open>euv_value\<close> exist in ultraviolet records
  only; elsewhere \<open>row.get\<close> answers \<open>None\<close>, which is \<open>VNone\<close> here. Times count seconds
  since the Unix epoch.
\<close>

record obs =
  obs_station_id :: string
  observed_at :: "int option"
  category :: string
  obs_value :: pyval
  uva_value :: pyval
  euv_value :: pyval
  obs_unit :: string
  created_at :: int
  raw_line :: string

text \<open>
  \<open>_parse_datetime_from_line\<close>. \<open>strptime\<close> stands for
  \<open>datetime.strptime(_, "%Y%m%d%H%M")\<close> with the UTC zone attached, \<open>None\<close> being its
  \<open>ValueError\<close>; \<open>now\<close> is the reading of the clock.
\<close>

definition parse_datetime_from_line :: "(string \<Rightarrow> int option) \<Rightarrow> int \<Rightarrow> string \<Rightarrow> int" where
  "parse_datetime_from_line strptime now datetime_str =
     (if length datetime_str = 12
      then (case strptime datetime_str of Some t \<Rightarrow> t | None \<Rightarrow> now)
      else if length datetime_str = 10
      then (case strptime (''20'' @ datetime_str) of Some t \<Rightarrow> t | None \<Rightarrow> now)
      else now)"

text \<open>
  The lines a parser reads: those of the stripped payload that do not start with \<open>#\<close>
  and are not blank.
\<close>

definition data_lines :: "string \<Rightarrow> string list" where
  "data_lines raw_data =
     filter (\<lambda>line. \<not> prefix ''#'' line \<and> py_strip line \<noteq> [])
       (split_on (CHR 0x0A) (py_strip raw_data))"

definition asos_record :: "(string \<Rightarrow> int option) \<Rightarrow> int \<Rightarrow> string \<Rightarrow> string list \<Rightarrow> obs" where
  "asos_record strptime now line parts =
     \<lparr>obs_station_id = (if length parts > 1 then parts ! 1 else ''unknown''),
      observed_at = Some (if parts ! 0 \<noteq> [] then parse_datetime_from_line strptime now (parts ! 0)
                          else now),
      category = ''asos'',
      obs_value = (if length parts > 2 then VStr (parts ! 2) else VNone),
      uva_value = VNone,
      euv_value = VNone,
      obs_unit = [],
      created_at = now,
      raw_line = line\<rparr>"

text \<open>The loop over the data lines; \<open>parsed_data\<close> is the list built so far.\<close>

fun parse_asos_loop ::
  "(string \<Rightarrow> int option) \<Rightarrow> int \<Rightarrow> string list \<Rightarrow> obs list \<Rightarrow> obs list" where
  "parse_asos_loop strptime now [] parsed_data = parsed_data"
| "parse_asos_loop strptime now (line # rest) parsed_data =
     (let parts = split_ws line
      in parse_asos_loop strptime now rest
           (if length parts \<ge> 3 then parsed_data @ [asos_record strptime now line parts]
            else parsed_data))"

text \<open>
  \<open>parse_asos_raw\<close>. No step of the body raises on a string, so the handler that
  answers \<open>[]\<close> for an exception has no branch here; the same holds of the two parsers
  below.
\<close>

definition parse_asos_raw :: "(string \<Rightarrow> int option) \<Rightarrow> int \<Rightarrow> string \<Rightarrow> obs list" where
  "parse_asos_raw strptime now raw_data = parse_asos_loop strptime now (data_lines raw_data) []"

text \<open>The unit of the particulate records, the UTF-8 bytes of the source's literal.\<close>

definition pm10_unit :: string where
  "pm10_unit = [CHR 0xCE, CHR 0xBC, CHR ''g'', CHR ''/'', CHR ''m'', CHR 0xC2, CHR 0xB3]"

definition pm10_record :: "(string \<Rightarrow> int option) \<Rightarrow> int \<Rightarrow> string \<Rightarrow> string list \<Rightarrow> obs" where
  "pm10_record strptime now line parts =
     (let datetime_str = (if parts ! 0 \<noteq> [] then py_strip (parts ! 0) else []);
          station = (if length parts > 1 then py_strip (parts ! 1) else ''unknown'');
          pm10_text = (if length parts > 2 then Some (py_strip (parts ! 2)) else None);
          pm10_value = (case pm10_text of
                          None \<Rightarrow> VNone
                        | Some t \<Rightarrow>
                            if t \<noteq> [] \<and> isdigit t then VInt (int (nat_of_digits t))
                            else VNone)
      in \<lparr>obs_station_id = station,
          observed_at = Some (if datetime_str \<noteq> []
                              then parse_datetime_from_line strptime now datetime_str else now),
          category = ''pm10'',
          obs_value = pm10_value,
          uva_value = VNone,
          euv_value = VNone,
          obs_unit = pm10_unit,
          created_at = now,
          raw_line = line\<rparr>)"

fun parse_pm10_loop ::
  "(string \<Rightarrow> int option) \<Rightarrow> int \<Rightarrow> string list \<Rightarrow> obs list \<Rightarrow> obs list" where
  "parse_pm10_loop strptime now [] parsed_data = parsed_data"
| "parse_pm10_loop strptime now (line # rest) parsed_data =
     (let parts = split_on (CHR '','') line
      in parse_pm10_loop strptime now rest
           (if length parts \<ge> 3 then parsed_data @ [pm10_record strptime now line parts]
            else parsed_data))"

definition parse_pm10_raw :: "(string \<Rightarrow> int option) \<Rightarrow> int \<Rightarrow> string \<Rightarrow> obs list" where
  "parse_pm10_raw strptime now raw_data = parse_pm10_loop strptime now (data_lines raw_data) []"

definition uv_unit :: string where
  "uv_unit = [CHR ''W'', CHR ''/'', CHR ''m'', CHR 0xC2, CHR 0xB2]"

definition uv_record :: "(string \<Rightarrow> int option) \<Rightarrow> int \<Rightarrow> string \<Rightarrow> string list \<Rightarrow> obs" where
  "uv_record strptime now line parts =
     \<lparr>obs_station_id = (if length parts > 1 then parts ! 1 else ''unknown''),
      observed_at = Some (if parts ! 0 \<noteq> [] then parse_datetime_from_line strptime now (parts ! 0)
                          else now),
      category = ''uv'',
      obs_value = (if length parts > 2 then VStr (parts ! 2) else VNone),
      uva_value = (if length parts > 3 then VStr (parts ! 3) else VNone),
      euv_value = (if length parts > 4 then VStr (parts ! 4) else VNone),
      obs_unit = uv_unit,
      created_at = now,
      raw_line = line\<rparr>"

fun parse_uv_loop ::
  "(string \<Rightarrow> int option) \<Rightarrow> int \<Rightarrow> string list \<Rightarrow> obs list \<Rightarrow> obs list" where
  "parse_uv_loop strptime now [] parsed_data = parsed_data"
| "parse_uv_loop strptime now (line # rest) parsed_data =
     (let parts = split_ws line
      in parse_uv_loop strptime now rest
           (if length parts \<ge> 5 then parsed_data @ [uv_record strptime now line parts]
            else parsed_data))"

definition parse_uv_raw :: "(string \<Rightarrow> int option) \<Rightarrow> int \<Rightarrow> string \<Rightarrow> obs list" where
  "parse_uv_raw strptime now raw_data = parse_uv_loop strptime now (data_lines raw_data) []"

section \<open>Fused records and feature rows\<close>

text \<open>
  A row of the fused frame built by \<open>create_ml_dataset\<close>. \<open>datetime\<close> counts seconds
  since the Unix epoch (UTC); \<open>None\<close> is pandas' NaT.
\<close>

record fused =
  station_id :: string
  datetime :: "int option"
  temperature :: "pyfloat option"
  pm10 :: "pyfloat option"
  uv_uvb :: "pyfloat option"
  uv_uva :: "pyfloat option"
  uv_euv :: "pyfloat option"

text \<open>
  The columns \<open>add_engineered_features\<close> appends. \<open>month\<close> and \<open>season\<close> (calendar
  arithmetic of \<open>dt.month\<close>) are left out: nothing below reads them.
\<close>

record feature = fused +
  hour :: "int option"
  day_of_week :: "int option"
  is_rush_hour :: bool
  is_morning_rush :: bool
  is_evening_rush :: bool
  is_weekday :: bool
  is_weekend :: bool
  temp_category :: "string option"
  temp_comfort :: "pyfloat option"
  temp_extreme :: bool
  heating_needed :: bool
  cooling_needed :: bool
  is_metro_area :: bool
  is_coastal :: bool
  region :: string
  pm10_grade :: "string option"
  mask_needed :: bool
  outdoor_activity_ok :: bool
  has_uv :: bool
  sun_protection_needed :: bool

record scored = feature +
  comfort_score :: real

section \<open>Feature engineering\<close>

text \<open>
  \<open>pd.cut(col, bins, labels)\<close> with its defaults (\<open>right=True\<close>,
  \<open>include_lowest=False\<close>): label \<open>i\<close> for a value in the half-open interval
  \<open>(bins[i], bins[i+1]]\<close>, and no category for a missing value or one outside every bin.
\<close>

fun cut_bins :: "real list \<Rightarrow> string list \<Rightarrow> pyfloat \<Rightarrow> string option" where
  "cut_bins (lo # hi # bs) (l # ls) x =
     (if pf_lt (Fin lo) x \<and> pf_le x (Fin hi) then Some l else cut_bins (hi # bs) ls x)"
| "cut_bins _ _ _ = None"

definition pd_cut :: "real list \<Rightarrow> string list \<Rightarrow> pyfloat option \<Rightarrow> string option" where
  "pd_cut bins labels x = (case x of None \<Rightarrow> None | Some v \<Rightarrow> cut_bins bins labels v)"

definition metro_stations :: "string list" where
  "metro_stations =
     [''100'', ''101'', ''102'', ''104'', ''105'', ''108'', ''112'', ''119'', ''129'', ''133'']"

definition coastal_stations :: "string list" where
  "coastal_stations =
     [''102'', ''104'', ''115'', ''130'', ''131'', ''152'', ''156'', ''159'', ''168'']"

text \<open>\<open>.str[0].map({...}).fillna('other')\<close>: the first character decides the region.\<close>

definition region_of :: "string \<Rightarrow> string" where
  "region_of s =
     (case s of [] \<Rightarrow> ''other''
      | c # _ \<Rightarrow>
          if c = CHR ''1'' then ''central''
          else if c = CHR ''2'' then ''south''
          else if c = CHR ''3'' then ''east''
          else if c = CHR ''9'' then ''west''
          else ''other'')"

text \<open>\<open>20 - (temperature - 20).abs()\<close> on one cell.\<close>

definition temp_comfort_of :: "pyfloat option \<Rightarrow> pyfloat option" where
  "temp_comfort_of x =
     (case x of None \<Rightarrow> None
      | Some (Fin t) \<Rightarrow> Some (Fin (20 - \<bar>t - 20\<bar>))
      | Some PosInf \<Rightarrow> Some NegInf
      | Some NegInf \<Rightarrow> Some NegInf
      | Some NaN \<Rightarrow> Some NaN)"

definition in_hours :: "int option \<Rightarrow> int list \<Rightarrow> bool" where
  "in_hours h hs = (case h of None \<Rightarrow> False | Some v \<Rightarrow> v \<in> set hs)"

text \<open>
  The feature columns of one row, each as the source computes it on the whole column.
  The frame handed over by \<open>create_ml_dataset\<close> always carries the columns
  \<open>temperature\<close>, \<open>pm10\<close> and \<open>uv_uvb\<close>, so the three \<open>in df.columns\<close> tests hold.
\<close>

definition engineer :: "fused \<Rightarrow> feature" where
  "engineer r =
     (let h = map_option (\<lambda>t. (t div 3600) mod 24) (datetime r);
          d = map_option (\<lambda>t. (t div 86400 + 3) mod 7) (datetime r);
          t = temperature r;
          p = pm10 r;
          u = uv_uvb r
      in fused.extend r
           (feature.fields
              h
              d
              (in_hours h [7, 8, 9, 18, 19, 20])
              (in_hours h [7, 8, 9])
              (in_hours h [18, 19, 20])
              (case d of None \<Rightarrow> False | Some v \<Rightarrow> v < 5)
              (case d of None \<Rightarrow> False | Some v \<Rightarrow> v \<ge> 5)
              (pd_cut [-999, 0, 10, 20, 30, 999]
                 [''very_cold'', ''cold'', ''mild'', ''warm'', ''hot''] t)
              (temp_comfort_of t)
              (cell_lt t 0 \<or> cell_gt t 30)
              (cell_lt t 10)
              (cell_gt t 25)
              (station_id r \<in> set metro_stations)
              (station_id r \<in> set coastal_stations)
              (region_of (station_id r))
              (pd_cut [0, 30, 80, 150, 999]
                 [''good'', ''moderate'', ''unhealthy'', ''very_unhealthy''] p)
              (cell_gt p 50)
              (cell_le p 80)
              (\<not> isna u \<and> cell_gt u 0)
              (cell_gt u 0.02)))"

section \<open>Comfort score\<close>

definition temp_score :: "pyfloat option \<Rightarrow> real" where
  "temp_score x =
     (if isna x then 100
      else if cell_ge x 15 \<and> cell_le x 22 then 90
      else if cell_ge x 10 \<and> cell_le x 25 then 70
      else if cell_ge x 5 \<and> cell_le x 30 then 50
      else if cell_ge x 0 \<and> cell_le x 35 then 20
      else 10)"

definition pm10_score :: "pyfloat option \<Rightarrow> real" where
  "pm10_score x =
     (if isna x then 50
      else if cell_le x 15 then 90
      else if cell_le x 35 then 70
      else if cell_le x 75 then 50
      else if cell_le x 150 then 30
      else 10)"

text \<open>\<open>np.clip(s, lo, hi)\<close> on one number.\<close>

definition np_clip :: "real \<Rightarrow> real \<Rightarrow> real \<Rightarrow> real" where
  "np_clip s lo hi = min (max s lo) hi"

text \<open>
  \<open>calculate_comfort_score(df)\<close>: \<open>columns\<close> are the names in \<open>df.columns\<close>, \<open>df\<close> the
  rows. Every step is a whole-column operation of the source, here a map over the rows.
\<close>

definition calculate_comfort_score :: "string list \<Rightarrow> feature list \<Rightarrow> real list" where
  "calculate_comfort_score columns df =
     (let scores = map (\<lambda>_. 50) df;
          scores = (if ''temperature'' \<in> set columns
                    then map2 (\<lambda>s r. s * 0.5 + temp_score (temperature r) * 0.5) scores df
                    else scores);
          scores = (if ''pm10'' \<in> set columns
                    then map2 (\<lambda>s r. s * 0.7 + pm10_score (pm10 r) * 0.3) scores df
                    else scores);
          scores = (if ''is_rush_hour'' \<in> set columns
                    then map2 (\<lambda>s r. s - of_bool (is_rush_hour r) * 10) scores df
                    else scores);
          scores = (if ''is_weekend'' \<in> set columns
                    then map2 (\<lambda>s r. s + of_bool (is_weekend r) * 5) scores df
                    else scores);
          scores = (if ''temp_extreme'' \<in> set columns
                    then map2 (\<lambda>s r. s - of_bool (temp_extreme r) * 20) scores df
                    else scores)
      in map (\<lambda>s. np_clip s 0 100) scores)"

text \<open>The columns of the frame at the point where the score is computed.\<close>

definition feature_columns :: "string list" where
  "feature_columns =
     [''station_id'', ''datetime'', ''temperature'', ''pm10'', ''uv_uvb'', ''uv_uva'',
      ''uv_euv'', ''hour'', ''day_of_week'', ''month'', ''is_rush_hour'',
      ''is_morning_rush'', ''is_evening_rush'', ''is_weekday'', ''is_weekend'', ''season'',
      ''temp_category'', ''temp_comfort'', ''temp_extreme'', ''heating_needed'',
      ''cooling_needed'', ''is_metro_area'', ''is_coastal'', ''region'', ''pm10_grade'',
      ''mask_needed'', ''outdoor_activity_ok'', ''has_uv'', ''sun_protection_needed'']"

definition add_engineered_features :: "fused list \<Rightarrow> scored list" where
  "add_engineered_features df =
     (if df = [] then []
      else let fs = map engineer df
           in map2 (\<lambda>f s. feature.extend f (scored.fields s)) fs
                (calculate_comfort_score feature_columns fs))"

section \<open>Fusion\<close>

datatype py_error = ValueError

text \<open>
  The temperature of a ground-station row: the value is converted when it is truthy and
  its text without \<open>.\<close> and \<open>-\<close> is all digits, and is \<open>None\<close> otherwise. A text that
  passes the test and that \<open>float\<close> still rejects raises.
\<close>

definition asos_temperature :: "pyval \<Rightarrow> py_error + pyfloat option" where
  "asos_temperature v =
     (if truthy v \<and> isdigit (remove_char (CHR ''-'') (remove_char (CHR ''.'') (py_str v)))
      then (case float_of v of None \<Rightarrow> Inl ValueError | Some f \<Rightarrow> Inr (Some f))
      else Inr None)"

text \<open>One round of the ground-station loop: the row is appended, or skipped on an exception.\<close>

definition asos_step :: "fused list \<Rightarrow> obs \<Rightarrow> fused list" where
  "asos_step all_records row =
     (case asos_temperature (obs_value row) of
        Inl _ \<Rightarrow> all_records
      | Inr t \<Rightarrow>
          all_records @
            [\<lparr>station_id = obs_station_id row, datetime = observed_at row, temperature = t,
              pm10 = None, uv_uvb = None, uv_uva = None, uv_euv = None\<rparr>])"

text \<open>Equality of two \<open>datetime\<close> cells: NaT equals nothing, itself included.\<close>

definition dt_eq :: "int option \<Rightarrow> int option \<Rightarrow> bool" where
  "dt_eq a b = (case a of None \<Rightarrow> False | Some x \<Rightarrow> (case b of None \<Rightarrow> False | Some y \<Rightarrow> x = y))"

text \<open>
  The search for an existing record: the first record with the key is updated and the
  search stops; \<open>None\<close> is \<open>found = False\<close>.
\<close>

fun update_first ::
  "string \<Rightarrow> int option \<Rightarrow> (fused \<Rightarrow> fused) \<Rightarrow> fused list \<Rightarrow> fused list option" where
  "update_first sid dt upd [] = None"
| "update_first sid dt upd (r # rs) =
     (if station_id r = sid \<and> dt_eq (datetime r) dt then Some (upd r # rs)
      else map_option ((#) r) (update_first sid dt upd rs))"

definition pm10_coerce :: "pyval \<Rightarrow> pyfloat option" where
  "pm10_coerce v = (if v \<noteq> VNone then (case float_of v of None \<Rightarrow> None | Some f \<Rightarrow> Some f) else None)"

definition pm10_step :: "fused list \<Rightarrow> obs \<Rightarrow> fused list" where
  "pm10_step all_records row =
     (let sid = obs_station_id row;
          datetime_val = observed_at row;
          pm10_val = pm10_coerce (obs_value row)
      in (case update_first sid datetime_val (\<lambda>r. r\<lparr>pm10 := pm10_val\<rparr>) all_records of
            Some updated \<Rightarrow> updated
          | None \<Rightarrow>
              all_records @
                [\<lparr>station_id = sid, datetime = datetime_val, temperature = None,
                  pm10 = pm10_val, uv_uvb = None, uv_uva = None, uv_euv = None\<rparr>]))"

text \<open>An ultraviolet value: converted, with the sentinel \<open>-999.0\<close> turned into \<open>None\<close>.\<close>

definition uv_coerce :: "pyval \<Rightarrow> pyfloat option" where
  "uv_coerce v =
     (if v \<noteq> VNone
      then (case float_of v of
              None \<Rightarrow> None
            | Some f \<Rightarrow> if f = Fin (- 999) then None else Some f)
      else None)"

definition uv_step :: "fused list \<Rightarrow> obs \<Rightarrow> fused list" where
  "uv_step all_records row =
     (let sid = obs_station_id row;
          datetime_val = observed_at row;
          uvb_val = uv_coerce (obs_value row);
          uva_val = uv_coerce (uva_value row);
          euv_val = uv_coerce (euv_value row)
      in (case update_first sid datetime_val
                 (\<lambda>r. r\<lparr>uv_uvb := uvb_val, uv_uva := uva_val, uv_euv := euv_val\<rparr>) all_records of
            Some updated \<Rightarrow> updated
          | None \<Rightarrow>
              all_records @
                [\<lparr>station_id = sid, datetime = datetime_val, temperature = None,
                  pm10 = None, uv_uvb = uvb_val, uv_uva = uva_val, uv_euv = euv_val\<rparr>]))"

text \<open>\<open>all_records\<close> after the three loops, in the order of the source.\<close>

definition all_records :: "obs list \<Rightarrow> obs list \<Rightarrow> obs list \<Rightarrow> fused list" where
  "all_records asos_rows pm10_rows uv_rows =
     foldl uv_step (foldl pm10_step (foldl asos_step [] asos_rows) pm10_rows) uv_rows"

text \<open>\<open>dropna(subset=["datetime"])\<close>, then \<open>sort_values(["datetime", "station_id"])\<close>.\<close>

definition merged_df :: "fused list \<Rightarrow> fused list" where
  "merged_df recs =
     sort_key (\<lambda>r. (datetime r, station_id r)) (filter (\<lambda>r. datetime r \<noteq> None) recs)"

text \<open>
  \<open>create_ml_dataset\<close>, its argument \<open>raw_data\<close> given as the three lists under the keys
  \<open>asos\<close>, \<open>pm10\<close> and \<open>uv\<close>.
\<close>

definition create_ml_dataset :: "obs list \<Rightarrow> obs list \<Rightarrow> obs list \<Rightarrow> scored list" where
  "create_ml_dataset asos_rows pm10_rows uv_rows =
     (let recs = all_records asos_rows pm10_rows uv_rows
      in if recs \<noteq> [] then add_engineered_features (merged_df recs) else [])"

section \<open>Artifact store\<close>

datatype io_error = ClientError | ParquetError

text \<open>
  The object store as the client sees it: \<open>list_objects_v2\<close> answers, for a prefix, the
  keys of the response's \<open>Contents\<close> (\<open>None\<close> when the response has none), \<open>get_object\<close>
  the body stored at a key; either call may raise.
\<close>

record s3_store =
  list_objects_v2 :: "string \<Rightarrow> io_error + string list option"
  get_object :: "string \<Rightarrow> io_error + string"

definition list_objects :: "s3_store \<Rightarrow> string \<Rightarrow> io_error + string list" where
  "list_objects s3 pfx =
     (case list_objects_v2 s3 pfx of
        Inl e \<Rightarrow> Inl e
      | Inr None \<Rightarrow> Inr []
      | Inr (Some contents) \<Rightarrow> Inr contents)"

text \<open>
  \<open>load_latest_ml_dataset\<close>; \<open>read_parquet\<close> stands for \<open>pd.read_parquet\<close> on the bytes
  read. The result \<open>Inr None\<close> is the source's \<open>return None\<close>.
\<close>

definition load_latest_ml_dataset ::
  "(string \<Rightarrow> io_error + 'df) \<Rightarrow> s3_store \<Rightarrow> int \<Rightarrow> io_error + 'df option" where
  "load_latest_ml_dataset read_parquet s3 days_back =
     (case list_objects s3 ''ml_dataset/'' of
        Inl e \<Rightarrow> Inl e
      | Inr keys \<Rightarrow>
          if keys = [] then Inr None
          else (let parquet_keys = filter (suffix ''.parquet'') keys
                in if parquet_keys = [] then Inr None
                   else (let latest_key = last (sort parquet_keys)
                         in (case get_object s3 latest_key of
                               Inl e \<Rightarrow> Inl e
                             | Inr body \<Rightarrow>
                                 (case read_parquet body of
                                    Inl e \<Rightarrow> Inl e
                                  | Inr df \<Rightarrow> Inr (Some df))))))"

section \<open>Notions used by the properties\<close>

text \<open>
  The score of one row, step by step as \<open>calculate_comfort_score\<close> computes it for the
  whole column.
\<close>

definition comfort_score_of_row :: "string list \<Rightarrow> feature \<Rightarrow> real" where
  "comfort_score_of_row columns r =
     (let s = 50;
          s = (if ''temperature'' \<in> set columns
               then s * 0.5 + temp_score (temperature r) * 0.5 else s);
          s = (if ''pm10'' \<in> set columns then s * 0.7 + pm10_score (pm10 r) * 0.3 else s);
          s = (if ''is_rush_hour'' \<in> set columns then s - of_bool (is_rush_hour r) * 10 else s);
          s = (if ''is_weekend'' \<in> set columns then s + of_bool (is_weekend r) * 5 else s);
          s = (if ''temp_extreme'' \<in> set columns then s - of_bool (temp_extreme r) * 20 else s)
      in np_clip s 0 100)"

text \<open>A row with every weather input missing and every flag of the score inactive.\<close>

definition all_missing_inactive :: "feature \<Rightarrow> bool" where
  "all_missing_inactive r =
     (isna (temperature r) \<and> isna (pm10 r) \<and> isna (uv_uvb r) \<and> isna (uv_uva r) \<and>
      isna (uv_euv r) \<and> \<not> is_rush_hour r \<and> \<not> is_weekend r \<and> \<not> temp_extreme r)"

text \<open>No ultraviolet field of the row holds the number \<open>-999\<close>.\<close>

definition no_sentinel :: "'a fused_scheme \<Rightarrow> bool" where
  "no_sentinel r =
     (uv_uvb r \<noteq> Some (Fin (- 999)) \<and> uv_uva r \<noteq> Some (Fin (- 999)) \<and>
      uv_euv r \<noteq> Some (Fin (- 999)))"

text \<open>The identity key of a row, and a frame in which no key with a datetime occurs twice.\<close>

definition row_key :: "'a fused_scheme \<Rightarrow> string \<times> int option" where
  "row_key r = (station_id r, datetime r)"

definition keys_unique :: "'a fused_scheme list \<Rightarrow> bool" where
  "keys_unique recs = distinct (filter (\<lambda>k. snd k \<noteq> None) (map row_key recs))"

text \<open>The row with nothing but its key.\<close>

definition empty_row :: "string \<Rightarrow> int option \<Rightarrow> fused" where
  "empty_row sid dt =
     \<lparr>station_id = sid, datetime = dt, temperature = None, pm10 = None, uv_uvb = None,
      uv_uva = None, uv_euv = None\<rparr>"

subsection \<open>Worked examples\<close>

text \<open>
  The examples use one timestamp, \<open>202501011300\<close>: 2025-01-01 13:00 UTC, which is
  \<open>1735736400\<close> seconds after the epoch, a Wednesday outside the rush hours.
  \<open>example_strptime\<close> is \<open>strptime\<close> at that timestamp; every other text is taken as
  unreadable. The clock of the examples reads 0.
\<close>

definition example_strptime :: "string \<Rightarrow> int option" where
  "example_strptime s = (if s = ''202501011300'' then Some 1735736400 else None)"

definition newline :: string where
  "newline = [CHR 0x0A]"

text \<open>
  Input lines of the three sources. The first three are ordinary readings of station
  108; every example payload holds them or a variant of them, so that each of the
  columns \<open>temperature\<close>, \<open>pm10\<close> and \<open>uv_uvb\<close> of the fused frame holds a number.
\<close>

definition asos_line_52 :: string where
  "asos_line_52 = ''202501011300 108 5.2''"

definition pm10_line_42 :: string where
  "pm10_line_42 = ''202501011300,108,42''"

definition uv_line_005 :: string where
  "uv_line_005 = ''202501011300 108 0.05 0.1 0.2''"

text \<open>Lines with a value that is not a number, a temperature of 1000 and the sentinel.\<close>

definition asos_line_abc :: string where
  "asos_line_abc = ''202501011300 108 abc''"

definition asos_line_109_1000 :: string where
  "asos_line_109_1000 = ''202501011300 109 1000''"

definition pm10_line_abc :: string where
  "pm10_line_abc = ''202501011300,108,abc''"

definition pm10_line_109_abc :: string where
  "pm10_line_109_abc = ''202501011300,109,abc''"

definition pm10_line_109_42 :: string where
  "pm10_line_109_42 = ''202501011300,109,42''"

definition uv_sentinel_line :: string where
  "uv_sentinel_line = ''202501011300 108 -999.0 0.1 0.2''"

definition uv_line_109_005 :: string where
  "uv_line_109_005 = ''202501011300 109 0.05 0.1 0.2''"

definition uv_exponent_line :: string where
  "uv_exponent_line = ''202501011300 108 1e-3 0.1 0.2''"

text \<open>The records the parsers build from such lines.\<close>

definition example_obs ::
  "string \<Rightarrow> string \<Rightarrow> pyval \<Rightarrow> pyval \<Rightarrow> pyval \<Rightarrow> string \<Rightarrow> string \<Rightarrow> obs" where
  "example_obs cat sid v va ve u line =
     \<lparr>obs_station_id = sid, observed_at = Some 1735736400, category = cat, obs_value = v,
      uva_value = va, euv_value = ve, obs_unit = u, created_at = 0, raw_line = line\<rparr>"

definition asos_obs :: "string \<Rightarrow> string \<Rightarrow> string \<Rightarrow> obs" where
  "asos_obs sid v line = example_obs ''asos'' sid (VStr v) VNone VNone [] line"

definition pm10_obs :: "string \<Rightarrow> pyval \<Rightarrow> string \<Rightarrow> obs" where
  "pm10_obs sid v line = example_obs ''pm10'' sid v VNone VNone pm10_unit line"

definition uv_obs :: "string \<Rightarrow> string \<Rightarrow> string \<Rightarrow> string \<Rightarrow> string \<Rightarrow> obs" where
  "uv_obs sid v va ve line = example_obs ''uv'' sid (VStr v) (VStr va) (VStr ve) uv_unit line"

definition asos_52 :: obs where
  "asos_52 = asos_obs ''108'' ''5.2'' asos_line_52"

definition pm10_42 :: obs where
  "pm10_42 = pm10_obs ''108'' (VInt 42) pm10_line_42"

definition uv_005 :: obs where
  "uv_005 = uv_obs ''108'' ''0.05'' ''0.1'' ''0.2'' uv_line_005"

definition asos_abc :: obs where
  "asos_abc = asos_obs ''108'' ''abc'' asos_line_abc"

text \<open>
  Particulate records whose value is a text, as a caller of \<open>create_ml_dataset\<close> may
  pass them (the particulate parser itself stores an integer or \<open>None\<close>).
\<close>

definition pm10_text_abc :: obs where
  "pm10_text_abc = pm10_obs ''108'' (VStr ''abc'') []"

definition pm10_text_1e5 :: obs where
  "pm10_text_1e5 = pm10_obs ''108'' (VStr ''1e5'') []"

text \<open>Fused rows: one with every weather input missing, one with the ordinary readings.\<close>

definition missing_row :: fused where
  "missing_row = empty_row ''109'' (Some 1735736400)"

definition full_row :: fused where
  "full_row =
     \<lparr>station_id = ''108'', datetime = Some 1735736400, temperature = Some (Fin (26 / 5)),
      pm10 = Some (Fin 42), uv_uvb = Some (Fin (1 / 20)), uv_uva = Some (Fin (1 / 10)),
      uv_euv = Some (Fin (1 / 5))\<rparr>"

text \<open>A payload of comment lines and blank lines only.\<close>

definition comment_payload :: string where
  "comment_payload =
     ''# START7777'' @ newline @ newline @ ''#  YYMMDDHHMI STN'' @ newline @ ''   '' @ newline"

text \<open>Two well-formed ground-station lines with a malformed line between them.\<close>

definition asos_payload :: string where
  "asos_payload =
     ''202501011300 108 5.2'' @ newline @ ''garbled'' @ newline @ ''202501011300 109 7.1''"

section \<open>Evaluation of the worked examples\<close>

lemmas float_eval = py_float_def split_sign_def py_strip_def is_space_def is_digit_def
  parse_decimal_def parse_exponent_def isdigit_def nat_of_digits_def digit_val_def to_lower_def

lemmas line_eval = data_lines_def py_strip_def is_space_def split_ws_def
  parse_datetime_from_line_def example_strptime_def newline_def

lemmas obs_eval = example_obs_def asos_obs_def pm10_obs_def uv_obs_def

lemmas fuse_eval = all_records_def asos_step_def pm10_step_def uv_step_def Let_def dt_eq_def
  asos_temperature_def truthy_def py_str_def remove_char_def float_of_def pm10_coerce_def
  uv_coerce_def

lemma example_obs_sel [simp]:
  "obs_station_id (example_obs cat sid v va ve u line) = sid"
  "observed_at (example_obs cat sid v va ve u line) = Some 1735736400"
  "obs_value (example_obs cat sid v va ve u line) = v"
  "uva_value (example_obs cat sid v va ve u line) = va"
  "euv_value (example_obs cat sid v va ve u line) = ve"
  by (simp_all add: example_obs_def)

lemma parse_asos_line:
  "parse_asos_raw example_strptime 0 asos_line_52 = [asos_52]"
  "parse_asos_raw example_strptime 0 asos_line_abc = [asos_abc]"
  "parse_asos_raw example_strptime 0 (asos_line_52 @ newline @ asos_line_52) =
     [asos_52, asos_52]"
  "parse_asos_raw example_strptime 0 (asos_line_52 @ newline @ asos_line_109_1000) =
     [asos_52, asos_obs ''109'' ''1000'' asos_line_109_1000]"
  by (simp_all add: parse_asos_raw_def asos_line_52_def asos_line_abc_def
      asos_line_109_1000_def asos_52_def asos_abc_def obs_eval asos_record_def line_eval)

lemma parse_pm10_line:
  "parse_pm10_raw example_strptime 0 pm10_line_42 = [pm10_42]"
  "parse_pm10_raw example_strptime 0 (pm10_line_42 @ newline @ pm10_line_109_abc) =
     [pm10_42, pm10_obs ''109'' VNone pm10_line_109_abc]"
  "parse_pm10_raw example_strptime 0 (pm10_line_abc @ newline @ pm10_line_109_42) =
     [pm10_obs ''108'' VNone pm10_line_abc, pm10_obs ''109'' (VInt 42) pm10_line_109_42]"
  by (simp_all add: parse_pm10_raw_def pm10_line_42_def pm10_line_abc_def
      pm10_line_109_abc_def pm10_line_109_42_def pm10_42_def obs_eval pm10_record_def
      line_eval isdigit_def is_digit_def nat_of_digits_def digit_val_def Let_def)

lemma parse_uv_line:
  "parse_uv_raw example_strptime 0 uv_line_005 = [uv_005]"
  "parse_uv_raw example_strptime 0 uv_exponent_line =
     [uv_obs ''108'' ''1e-3'' ''0.1'' ''0.2'' uv_exponent_line]"
  "parse_uv_raw example_strptime 0 (uv_sentinel_line @ newline @ uv_line_109_005) =
     [uv_obs ''108'' ''-999.0'' ''0.1'' ''0.2'' uv_sentinel_line,
      uv_obs ''109'' ''0.05'' ''0.1'' ''0.2'' uv_line_109_005]"
  by (simp_all add: parse_uv_raw_def uv_line_005_def uv_exponent_line_def
      uv_sentinel_line_def uv_line_109_005_def uv_005_def obs_eval uv_record_def line_eval)

lemma key_order:
  "((Some (1735736400::int), ''108'') \<le> (Some 1735736400, ''109'')) = True"
  "((Some (1735736400::int), ''109'') \<le> (Some 1735736400, ''108'')) = False"
  by (simp_all add: less_eq_prod_def)

lemmas row_eval = full_row_def missing_row_def empty_row_def asos_52_def pm10_42_def
  uv_005_def asos_abc_def pm10_text_abc_def pm10_text_1e5_def

lemma py_float_sentinel: "py_float ''-999.0'' = Some (Fin (- 999))"
  by (simp add: float_eval)




lemma asos_temperature_52: "asos_temperature (VStr ''5.2'') = Inr (Some (Fin (26 / 5)))"
  by (simp add: asos_temperature_def truthy_def py_str_def remove_char_def float_of_def
      float_eval)

section \<open>Rows of the feature frame\<close>

lemma map2_same_left: "map2 f (map g xs) xs = map (\<lambda>x. f (g x) x) xs"
  by (induction xs) simp_all

lemma map2_map_map: "map2 f (map g xs) (map h xs) = map (\<lambda>x. f (g x) (h x)) xs"
  by (induction xs) simp_all

lemma if_map: "(if c then map f xs else map g xs) = map (\<lambda>x. if c then f x else g x) xs"
  by simp

lemma calculate_comfort_score_rows:
  "calculate_comfort_score columns df = map (comfort_score_of_row columns) df"
  unfolding calculate_comfort_score_def comfort_score_of_row_def Let_def
  by (simp only: map2_same_left if_map map_map comp_def)

lemma add_engineered_features_rows:
  "add_engineered_features df =
     map (\<lambda>r. feature.extend (engineer r)
                (scored.fields (comfort_score_of_row feature_columns (engineer r)))) df"
  unfolding add_engineered_features_def Let_def
  by (simp add: calculate_comfort_score_rows map2_map_map)

lemma engineer_fused [simp]:
  "station_id (engineer r) = station_id r"
  "datetime (engineer r) = datetime r"
  "temperature (engineer r) = temperature r"
  "pm10 (engineer r) = pm10 r"
  "uv_uvb (engineer r) = uv_uvb r"
  "uv_uva (engineer r) = uv_uva r"
  "uv_euv (engineer r) = uv_euv r"
  by (simp_all add: engineer_def Let_def fused.defs feature.defs)

lemma engineer_flags:
  "is_rush_hour (engineer r) = in_hours (map_option (\<lambda>t. (t div 3600) mod 24) (datetime r))
                                 [7, 8, 9, 18, 19, 20]"
  "is_weekend (engineer r) =
     (case map_option (\<lambda>t. (t div 86400 + 3) mod 7) (datetime r) of
        None \<Rightarrow> False | Some v \<Rightarrow> v \<ge> 5)"
  "temp_extreme (engineer r) = (cell_lt (temperature r) 0 \<or> cell_gt (temperature r) 30)"
  "temp_category (engineer r) =
     pd_cut [-999, 0, 10, 20, 30, 999] [''very_cold'', ''cold'', ''mild'', ''warm'', ''hot'']
       (temperature r)"
  by (simp_all add: engineer_def Let_def fused.defs feature.defs)

lemma scored_extend_sel [simp]:
  "station_id (feature.extend f (scored.fields s)) = station_id f"
  "datetime (feature.extend f (scored.fields s)) = datetime f"
  "temperature (feature.extend f (scored.fields s)) = temperature f"
  "pm10 (feature.extend f (scored.fields s)) = pm10 f"
  "uv_uvb (feature.extend f (scored.fields s)) = uv_uvb f"
  "uv_uva (feature.extend f (scored.fields s)) = uv_uva f"
  "uv_euv (feature.extend f (scored.fields s)) = uv_euv f"
  "is_rush_hour (feature.extend f (scored.fields s)) = is_rush_hour f"
  "is_weekend (feature.extend f (scored.fields s)) = is_weekend f"
  "temp_extreme (feature.extend f (scored.fields s)) = temp_extreme f"
  "temp_category (feature.extend f (scored.fields s)) = temp_category f"
  "comfort_score (feature.extend f (scored.fields s)) = s"
  by (simp_all add: feature.defs scored.defs)

lemma create_ml_dataset_rows:
  "create_ml_dataset asos_rows pm10_rows uv_rows =
     add_engineered_features (merged_df (all_records asos_rows pm10_rows uv_rows))"
  by (simp add: create_ml_dataset_def Let_def merged_df_def add_engineered_features_def)

lemma truncate_engineer [simp]:
  "fused.truncate (feature.extend (engineer r) (scored.fields s)) = r"
  by (simp add: engineer_def Let_def fused.defs feature.defs scored.defs)

section \<open>Properties of the parsers\<close>

lemma parse_asos_loop_eq:
  "parse_asos_loop strptime now ls acc =
     acc @ map (\<lambda>l. asos_record strptime now l (split_ws l))
             (filter (\<lambda>l. 3 \<le> length (split_ws l)) ls)"
  by (induction ls arbitrary: acc) (simp_all add: Let_def)

lemma parse_pm10_loop_eq:
  "parse_pm10_loop strptime now ls acc =
     acc @ map (\<lambda>l. pm10_record strptime now l (split_on (CHR '','') l))
             (filter (\<lambda>l. 3 \<le> length (split_on (CHR '','') l)) ls)"
  by (induction ls arbitrary: acc) (simp_all add: Let_def)

lemma parse_uv_loop_eq:
  "parse_uv_loop strptime now ls acc =
     acc @ map (\<lambda>l. uv_record strptime now l (split_ws l))
             (filter (\<lambda>l. 5 \<le> length (split_ws l)) ls)"
  by (induction ls arbitrary: acc) (simp_all add: Let_def)

lemma data_lines_comment_only:
  assumes "list_all (\<lambda>l. prefix ''#'' l \<or> py_strip l = [])
             (split_on (CHR 0x0A) (py_strip raw_data))"
  shows "data_lines raw_data = []"
  using assms by (auto simp add: data_lines_def list_all_iff filter_empty_conv)

text \<open>
  Claim C7. Each of the three parsers is a total function of the payload: its body has
  no step that raises on a string, so the record list is always returned. The list holds
  the record of every data line with enough fields, in order; a line with too few fields
  adds nothing and does not stop the lines after it. A payload whose lines are all
  comments or blank gives the empty list.
\<close>

theorem parsers_never_abort:
  "parse_asos_raw strptime now raw_data =
     map (\<lambda>l. asos_record strptime now l (split_ws l))
       (filter (\<lambda>l. 3 \<le> length (split_ws l)) (data_lines raw_data)) \<and>
   parse_pm10_raw strptime now raw_data =
     map (\<lambda>l. pm10_record strptime now l (split_on (CHR '','') l))
       (filter (\<lambda>l. 3 \<le> length (split_on (CHR '','') l)) (data_lines raw_data)) \<and>
   parse_uv_raw strptime now raw_data =
     map (\<lambda>l. uv_record strptime now l (split_ws l))
       (filter (\<lambda>l. 5 \<le> length (split_ws l)) (data_lines raw_data)) \<and>
   (list_all (\<lambda>l. prefix ''#'' l \<or> py_strip l = [])
        (split_on (CHR 0x0A) (py_strip raw_data)) \<longrightarrow>
      parse_asos_raw strptime now raw_data = [] \<and>
      parse_pm10_raw strptime now raw_data = [] \<and>
      parse_uv_raw strptime now raw_data = [])"
  by (simp add: parse_asos_raw_def parse_pm10_raw_def parse_uv_raw_def parse_asos_loop_eq
      parse_pm10_loop_eq parse_uv_loop_eq data_lines_comment_only)

lemma split_comment_payload:
  "split_on (CHR 0x0A) (py_strip comment_payload) =
     [''# START7777'', [], ''#  YYMMDDHHMI STN'']"
  by (simp add: comment_payload_def newline_def py_strip_def is_space_def)

lemma data_lines_asos_payload:
  "data_lines asos_payload =
     [''202501011300 108 5.2'', ''garbled'', ''202501011300 109 7.1'']"
  by (simp add: data_lines_def asos_payload_def newline_def py_strip_def is_space_def)

lemma split_ws_asos_lines:
  "split_ws ''202501011300 108 5.2'' = [''202501011300'', ''108'', ''5.2'']"
  "split_ws ''garbled'' = [''garbled'']"
  "split_ws ''202501011300 109 7.1'' = [''202501011300'', ''109'', ''7.1'']"
  by (simp_all add: split_ws_def is_space_def)

theorem parsers_never_abort_witness:
  "list_all (\<lambda>l. prefix ''#'' l \<or> py_strip l = [])
     (split_on (CHR 0x0A) (py_strip comment_payload)) \<and>
   parse_asos_raw example_strptime 0 comment_payload = [] \<and>
   parse_pm10_raw example_strptime 0 comment_payload = [] \<and>
   parse_uv_raw example_strptime 0 comment_payload = [] \<and>
   map (\<lambda>r. (obs_station_id r, observed_at r, obs_value r))
     (parse_asos_raw example_strptime 0 asos_payload) =
     [(''108'', Some 1735736400, VStr ''5.2''), (''109'', Some 1735736400, VStr ''7.1'')]"
proof -
  have only_comments:
    "list_all (\<lambda>l. prefix ''#'' l \<or> py_strip l = [])
       (split_on (CHR 0x0A) (py_strip comment_payload))"
    unfolding split_comment_payload by (simp add: py_strip_def)
  have empty:
    "parse_asos_raw example_strptime 0 comment_payload = [] \<and>
     parse_pm10_raw example_strptime 0 comment_payload = [] \<and>
     parse_uv_raw example_strptime 0 comment_payload = []"
    using parsers_never_abort [of example_strptime 0 comment_payload] only_comments by blast
  have "parse_asos_raw example_strptime 0 asos_payload =
     map (\<lambda>l. asos_record example_strptime 0 l (split_ws l))
       (filter (\<lambda>l. 3 \<le> length (split_ws l)) (data_lines asos_payload))"
    using parsers_never_abort [of example_strptime 0 asos_payload] by blast
  then have "map (\<lambda>r. (obs_station_id r, observed_at r, obs_value r))
       (parse_asos_raw example_strptime 0 asos_payload) =
     [(''108'', Some 1735736400, VStr ''5.2''), (''109'', Some 1735736400, VStr ''7.1'')]"
    by (simp add: data_lines_asos_payload split_ws_asos_lines asos_record_def
        parse_datetime_from_line_def example_strptime_def)
  with only_comments empty show ?thesis by blast
qed

section \<open>Properties of the fusion\<close>


lemma foldl_preserves:
  assumes "\<And>s x. P s \<Longrightarrow> P (f s x)" and "P s"
  shows "P (foldl f s xs)"
  using assms(2) by (induction xs arbitrary: s) (simp_all add: assms(1))

lemma update_first_list_all:
  assumes "update_first sid dt upd recs = Some recs'" and "list_all P recs"
    and "\<And>r. P r \<Longrightarrow> P (upd r)"
  shows "list_all P recs'"
  using assms(1,2)
proof (induction recs arbitrary: recs')
  case Nil
  then show ?case by simp
next
  case (Cons r rs)
  then show ?case
    by (auto simp add: assms(3) split: if_splits)
qed


lemma update_first_keys:
  assumes "update_first sid dt upd recs = Some recs'" and "\<And>r. row_key (upd r) = row_key r"
  shows "map row_key recs' = map row_key recs"
  using assms(1)
proof (induction recs arbitrary: recs')
  case Nil
  then show ?case by simp
next
  case (Cons r rs)
  then show ?case by (auto simp add: assms(2) split: if_splits)
qed

lemma update_first_None:
  assumes "update_first sid (Some t) upd recs = None"
  shows "(sid, Some t) \<notin> set (map row_key recs)"
  using assms
  by (induction recs) (auto simp add: row_key_def dt_eq_def split: if_splits option.splits)

subsection \<open>One row per key\<close>

lemma keys_unique_append:
  "keys_unique (recs @ [r]) =
     (keys_unique recs \<and> (datetime r \<noteq> None \<longrightarrow> row_key r \<notin> set (map row_key recs)))"
  by (auto simp add: keys_unique_def row_key_def)

lemma pm10_step_keys_unique: "keys_unique recs \<Longrightarrow> keys_unique (pm10_step recs row)"
proof (cases "update_first (obs_station_id row) (observed_at row)
                (\<lambda>r. r\<lparr>pm10 := pm10_coerce (obs_value row)\<rparr>) recs")
  case None
  assume u: "keys_unique recs"
  show ?thesis
  proof (cases "observed_at row")
    case dtNone: None
    with None u show ?thesis
      by (simp add: pm10_step_def Let_def keys_unique_append)
  next
    case (Some t)
    with None have "(obs_station_id row, Some t) \<notin> set (map row_key recs)"
      by (intro update_first_None) simp
    with None Some u show ?thesis
      by (simp add: pm10_step_def Let_def keys_unique_append row_key_def)
  qed
next
  case (Some recs')
  assume u: "keys_unique recs"
  have "map row_key recs' = map row_key recs"
    using Some by (rule update_first_keys) (simp add: row_key_def)
  with u Some show ?thesis
    by (simp add: pm10_step_def Let_def keys_unique_def)
qed

lemma uv_step_keys_unique: "keys_unique recs \<Longrightarrow> keys_unique (uv_step recs row)"
proof (cases "update_first (obs_station_id row) (observed_at row)
                (\<lambda>r. r\<lparr>uv_uvb := uv_coerce (obs_value row), uv_uva := uv_coerce (uva_value row),
                       uv_euv := uv_coerce (euv_value row)\<rparr>) recs")
  case None
  assume u: "keys_unique recs"
  show ?thesis
  proof (cases "observed_at row")
    case dtNone: None
    with None u show ?thesis
      by (simp add: uv_step_def Let_def keys_unique_append)
  next
    case (Some t)
    with None have "(obs_station_id row, Some t) \<notin> set (map row_key recs)"
      by (intro update_first_None) simp
    with None Some u show ?thesis
      by (simp add: uv_step_def Let_def keys_unique_append row_key_def)
  qed
next
  case (Some recs')
  assume u: "keys_unique recs"
  have "map row_key recs' = map row_key recs"
    using Some by (rule update_first_keys) (simp add: row_key_def)
  with u Some show ?thesis
    by (simp add: uv_step_def Let_def keys_unique_def)
qed

lemma foldl_asos_step_keys:
  "map row_key (foldl asos_step recs asos_rows) =
     map row_key recs @
     map (\<lambda>r. (obs_station_id r, observed_at r))
       (filter (\<lambda>r. isl (asos_temperature (obs_value r)) = False) asos_rows)"
  by (induction asos_rows arbitrary: recs)
    (auto simp add: asos_step_def row_key_def split: sum.splits)

lemma asos_keys_unique:
  assumes "distinct (map (\<lambda>r. (obs_station_id r, observed_at r))
              (filter (\<lambda>r. observed_at r \<noteq> None) asos_rows))"
  shows "keys_unique (foldl asos_step [] asos_rows)"
proof -
  let ?k = "\<lambda>r. (obs_station_id r, observed_at r)"
  have "filter (\<lambda>k. snd k \<noteq> None)
          (map ?k (filter (\<lambda>r. isl (asos_temperature (obs_value r)) = False) asos_rows)) =
        map ?k (filter (\<lambda>r. isl (asos_temperature (obs_value r)) = False)
                  (filter (\<lambda>r. observed_at r \<noteq> None) asos_rows))"
    by (induction asos_rows) simp_all
  moreover have "distinct (map ?k (filter (\<lambda>r. isl (asos_temperature (obs_value r)) = False)
                  (filter (\<lambda>r. observed_at r \<noteq> None) asos_rows)))"
    using assms by (rule distinct_map_filter)
  ultimately show ?thesis
    by (simp add: keys_unique_def foldl_asos_step_keys)
qed

lemma all_records_keys_unique:
  assumes "distinct (map (\<lambda>r. (obs_station_id r, observed_at r))
              (filter (\<lambda>r. observed_at r \<noteq> None) asos_rows))"
  shows "keys_unique (all_records asos_rows pm10_rows uv_rows)"
proof -
  have "keys_unique (foldl pm10_step (foldl asos_step [] asos_rows) pm10_rows)"
    using asos_keys_unique [OF assms]
    by (rule foldl_preserves [where P = keys_unique, rotated]) (rule pm10_step_keys_unique)
  then show ?thesis
    unfolding all_records_def
    by (rule foldl_preserves [where P = keys_unique, rotated]) (rule uv_step_keys_unique)
qed

text \<open>
  The particulate and ultraviolet loops never add a second row for a key. Where the
  ground-station records with a datetime have pairwise different keys, the frame has at
  most one row per key.
\<close>

lemma create_ml_dataset_keys_unique:
  assumes "distinct (map (\<lambda>r. (obs_station_id r, observed_at r))
              (filter (\<lambda>r. observed_at r \<noteq> None) asos_rows))"
  shows "distinct (map row_key (create_ml_dataset asos_rows pm10_rows uv_rows))"
proof -
  let ?recs = "all_records asos_rows pm10_rows uv_rows"
  have "map row_key (create_ml_dataset asos_rows pm10_rows uv_rows) = map row_key (merged_df ?recs)"
    by (simp add: create_ml_dataset_rows add_engineered_features_rows row_key_def comp_def)
  moreover have "mset (map row_key (merged_df ?recs)) =
      mset (filter (\<lambda>k. snd k \<noteq> None) (map row_key ?recs))"
    by (simp add: merged_df_def filter_map comp_def row_key_def)
  moreover have "distinct (filter (\<lambda>k. snd k \<noteq> None) (map row_key ?recs))"
    using all_records_keys_unique [OF assms] by (simp add: keys_unique_def)
  ultimately show ?thesis
    by (metis mset_eq_imp_distinct_iff)
qed

text \<open>
  Claim C2 (at most one row per station and datetime, later records updating the first)
  at a payload in which the ground-station line \<open>202501011300 108 5.2\<close>
  stands twice: the ground-station loop appends a record for each, the particulate and
  ultraviolet loops update the first, and the frame holds two rows for the one key.
\<close>

theorem duplicate_asos_key_two_rows:
  "map (\<lambda>r. (station_id r, datetime r, temperature r, pm10 r))
     (create_ml_dataset
        (parse_asos_raw example_strptime 0 (asos_line_52 @ newline @ asos_line_52))
        (parse_pm10_raw example_strptime 0 pm10_line_42)
        (parse_uv_raw example_strptime 0 uv_line_005)) =
     [(''108'', Some 1735736400, Some (Fin (26 / 5)), Some (Fin 42)),
      (''108'', Some 1735736400, Some (Fin (26 / 5)), None)]"
proof -
  have "all_records [asos_52, asos_52] [pm10_42] [uv_005] =
        [full_row, (empty_row ''108'' (Some 1735736400))\<lparr>temperature := Some (Fin (26 / 5))\<rparr>]"
    by (simp add: fuse_eval float_eval obs_eval row_eval)
  then show ?thesis
    by (simp add: parse_asos_line parse_pm10_line parse_uv_line create_ml_dataset_rows
        add_engineered_features_rows merged_df_def row_eval)
qed

subsection \<open>Two sources, one key\<close>




text \<open>
  The two loops do not commute: run in the other order on the same two records, the
  ground-station loop appends a second row for the key, since it never looks for an
  existing one.
\<close>

lemma pm10_before_asos_two_rows:
  "map (\<lambda>r. (station_id r, datetime r, temperature r, pm10 r))
     (foldl asos_step (foldl pm10_step [] [pm10_42]) [asos_52]) =
     [(''108'', Some 1735736400, None, Some (Fin 42)),
      (''108'', Some 1735736400, Some (Fin (26 / 5)), None)]"
  by (simp add: asos_step_def pm10_step_def Let_def asos_52_def pm10_42_def obs_eval
      asos_temperature_52 pm10_coerce_def float_of_def)

subsection \<open>Values that are not numbers\<close>






text \<open>
  Outside the claim: a ground-station text that passes the digit test and that \<open>float\<close>
  rejects, such as \<open>1.2.3\<close>, raises inside the loop, and the record is skipped.
\<close>

lemma asos_step_drops_on_error:
  "asos_step recs (asos_obs ''108'' ''1.2.3'' []) = recs"
  by (simp add: asos_step_def asos_temperature_def truthy_def py_str_def remove_char_def
      float_of_def float_eval obs_eval)

subsection \<open>The ultraviolet sentinel\<close>

lemma uv_coerce_not_sentinel: "uv_coerce v \<noteq> Some (Fin (- 999))"
  by (simp add: uv_coerce_def split: option.splits)

lemma asos_step_no_sentinel: "list_all no_sentinel recs \<Longrightarrow> list_all no_sentinel (asos_step recs row)"
  by (simp add: asos_step_def no_sentinel_def split: sum.splits)

lemma pm10_step_no_sentinel: "list_all no_sentinel recs \<Longrightarrow> list_all no_sentinel (pm10_step recs row)"
  by (auto simp add: pm10_step_def Let_def no_sentinel_def split: option.splits
      intro: update_first_list_all)

lemma uv_step_no_sentinel: "list_all no_sentinel recs \<Longrightarrow> list_all no_sentinel (uv_step recs row)"
  by (auto simp add: uv_step_def Let_def no_sentinel_def uv_coerce_not_sentinel split: option.splits
      intro: update_first_list_all)

lemma all_records_no_sentinel: "list_all no_sentinel (all_records asos_rows pm10_rows uv_rows)"
proof -
  have "list_all no_sentinel (foldl asos_step [] asos_rows)"
    by (rule foldl_preserves [where P = "list_all no_sentinel"])
      (simp_all add: asos_step_no_sentinel)
  then have "list_all no_sentinel (foldl pm10_step (foldl asos_step [] asos_rows) pm10_rows)"
    by (rule foldl_preserves [where P = "list_all no_sentinel", rotated])
      (rule pm10_step_no_sentinel)
  then show ?thesis
    unfolding all_records_def
    by (rule foldl_preserves [where P = "list_all no_sentinel", rotated])
      (rule uv_step_no_sentinel)
qed

lemma no_sentinel_scored [simp]:
  "no_sentinel (feature.extend (engineer r) (scored.fields s)) = no_sentinel r"
  by (simp add: no_sentinel_def)

text \<open>
  Claim C6, as the source has it. \<open>parse_uv_raw\<close> keeps the three tokens of a line as
  the strings they are. The sentinel is removed later, in the ultraviolet loop of
  \<open>create_ml_dataset\<close>: a value that \<open>float\<close> reads as \<open>-999.0\<close> becomes \<open>None\<close>, and no row
  of the fused frame holds \<open>-999\<close> in \<open>uv_uvb\<close>, \<open>uv_uva\<close> or \<open>uv_euv\<close>.
\<close>

theorem uv_sentinel_removed_by_fusion:
  "(py_float s = Some (Fin (- 999)) \<longrightarrow> uv_coerce (VStr s) = None) \<and>
   (5 \<le> length parts \<longrightarrow>
      obs_value (uv_record strptime now line parts) = VStr (parts ! 2) \<and>
      uva_value (uv_record strptime now line parts) = VStr (parts ! 3) \<and>
      euv_value (uv_record strptime now line parts) = VStr (parts ! 4)) \<and>
   list_all no_sentinel (create_ml_dataset asos_rows pm10_rows uv_rows)"
proof -
  have "list_all no_sentinel (merged_df (all_records asos_rows pm10_rows uv_rows))"
    using all_records_no_sentinel [of asos_rows pm10_rows uv_rows]
    by (simp add: merged_df_def list_all_iff)
  then have "list_all no_sentinel (create_ml_dataset asos_rows pm10_rows uv_rows)"
    by (simp add: create_ml_dataset_rows add_engineered_features_rows list_all_iff)
  then show ?thesis
    by (simp add: uv_coerce_def float_of_def uv_record_def)
qed

text \<open>
  The claim as stated fails on the parser's output: the record built from a line whose
  UVB token is \<open>-999.0\<close> carries that token as its value.
\<close>

theorem uv_parser_keeps_sentinel_counterexample:
  "map (\<lambda>r. (obs_station_id r, observed_at r, obs_value r, uva_value r, euv_value r))
     (parse_uv_raw example_strptime 0 uv_sentinel_line) =
   [(''108'', Some 1735736400, VStr ''-999.0'', VStr ''0.1'', VStr ''0.2'')]"
  by (simp add: parse_uv_raw_def uv_sentinel_line_def uv_record_def line_eval)

theorem uv_sentinel_removed_by_fusion_witness:
  "py_float ''-999.0'' = Some (Fin (- 999)) \<and> uv_coerce (VStr ''-999.0'') = None \<and>
   obs_value (uv_record example_strptime 0 uv_sentinel_line
                [''202501011300'', ''108'', ''-999.0'', ''0.1'', ''0.2'']) = VStr ''-999.0'' \<and>
   map (\<lambda>r. (station_id r, uv_uvb r, uv_uva r, uv_euv r))
     (create_ml_dataset (parse_asos_raw example_strptime 0 asos_line_52)
        (parse_pm10_raw example_strptime 0 pm10_line_42)
        (parse_uv_raw example_strptime 0 (uv_sentinel_line @ newline @ uv_line_109_005))) =
     [(''108'', None, Some (Fin (1 / 10)), Some (Fin (1 / 5))),
      (''109'', Some (Fin (1 / 20)), Some (Fin (1 / 10)), Some (Fin (1 / 5)))]"
proof -
  note uv_sentinel_removed_by_fusion [of "''-999.0''"
      "[''202501011300'', ''108'', ''-999.0'', ''0.1'', ''0.2'']" example_strptime 0
      uv_sentinel_line "[]" "[]" "[]"]
  then have "uv_coerce (VStr ''-999.0'') = None"
    and "obs_value (uv_record example_strptime 0 uv_sentinel_line
                [''202501011300'', ''108'', ''-999.0'', ''0.1'', ''0.2'']) = VStr ''-999.0''"
    using py_float_sentinel by simp_all
  moreover have "all_records [asos_52] [pm10_42]
      [uv_obs ''108'' ''-999.0'' ''0.1'' ''0.2'' uv_sentinel_line,
       uv_obs ''109'' ''0.05'' ''0.1'' ''0.2'' uv_line_109_005] =
      [full_row\<lparr>uv_uvb := None\<rparr>,
       (empty_row ''109'' (Some 1735736400))\<lparr>uv_uvb := Some (Fin (1 / 20)),
          uv_uva := Some (Fin (1 / 10)), uv_euv := Some (Fin (1 / 5))\<rparr>]"
    by (simp add: fuse_eval float_eval obs_eval row_eval)
  then have "map (\<lambda>r. (station_id r, uv_uvb r, uv_uva r, uv_euv r))
     (create_ml_dataset (parse_asos_raw example_strptime 0 asos_line_52)
        (parse_pm10_raw example_strptime 0 pm10_line_42)
        (parse_uv_raw example_strptime 0 (uv_sentinel_line @ newline @ uv_line_109_005))) =
     [(''108'', None, Some (Fin (1 / 10)), Some (Fin (1 / 5))),
      (''109'', Some (Fin (1 / 20)), Some (Fin (1 / 10)), Some (Fin (1 / 5)))]"
    by (simp add: parse_asos_line parse_pm10_line parse_uv_line create_ml_dataset_rows
        add_engineered_features_rows merged_df_def row_eval key_order)
  ultimately show ?thesis using py_float_sentinel by blast
qed

subsection \<open>Order of the fused frame\<close>






section \<open>Properties of the feature columns\<close>




section \<open>Properties of the comfort score\<close>

lemma np_clip_bounds: "lo \<le> hi \<Longrightarrow> lo \<le> np_clip s lo hi \<and> np_clip s lo hi \<le> hi"
  by (simp add: np_clip_def)

lemma comfort_score_of_row_bounds:
  "0 \<le> comfort_score_of_row columns r \<and> comfort_score_of_row columns r \<le> 100"
  unfolding comfort_score_of_row_def Let_def by (rule np_clip_bounds) simp

lemma comfort_score_of_row_missing:
  assumes "all_missing_inactive r"
  shows "comfort_score_of_row columns r =
       (if ''temperature'' \<in> set columns
        then (if ''pm10'' \<in> set columns then 67.5 else 75) else 50)"
  using assms
  by (simp add: comfort_score_of_row_def all_missing_inactive_def temp_score_def
      pm10_score_def np_clip_def)

text \<open>
  Claim C3. For every frame, whatever its columns and whichever inputs are missing,
  \<open>calculate_comfort_score\<close> answers one score per row, and every score lies in the
  closed interval from 0 to 100.
\<close>

theorem comfort_score_total_and_bounded:
  "length (calculate_comfort_score columns df) = length df \<and>
   list_all (\<lambda>s. 0 \<le> s \<and> s \<le> 100) (calculate_comfort_score columns df)"
  by (simp add: calculate_comfort_score_rows list_all_iff comfort_score_of_row_bounds)

text \<open>
  Claim C1, as the source has it. For rows whose weather inputs are all missing and whose
  flags are all inactive, the score is 50 only in a frame without a \<open>temperature\<close>
  column. Where the column exists, as in every frame \<open>create_ml_dataset\<close> builds, the
  sub-score 100 of a missing temperature is blended in: the score is 75 without a
  \<open>pm10\<close> column and 67.5 with one.
\<close>

theorem comfort_score_all_missing:
  assumes "list_all all_missing_inactive df"
  shows "calculate_comfort_score columns df =
     replicate (length df)
       (if ''temperature'' \<in> set columns
        then (if ''pm10'' \<in> set columns then 67.5 else 75) else 50)"
proof -
  have "map (comfort_score_of_row columns) df =
        map (\<lambda>_. if ''temperature'' \<in> set columns
                 then (if ''pm10'' \<in> set columns then 67.5 else 75) else 50) df"
    using assms by (intro map_cong refl comfort_score_of_row_missing) (simp add: list_all_iff)
  then show ?thesis
    by (simp only: calculate_comfort_score_rows map_replicate_const)
qed

lemma missing_row_inactive: "all_missing_inactive (engineer missing_row)"
  by (simp add: all_missing_inactive_def engineer_flags isna_def in_hours_def cell_lt_def
      cell_gt_def missing_row_def empty_row_def)

lemma missing_row_score: "comfort_score_of_row feature_columns (engineer missing_row) = 135 / 2"
  using comfort_score_of_row_missing [OF missing_row_inactive, of feature_columns]
  by (simp add: feature_columns_def)

theorem comfort_score_all_missing_witness:
  "list_all all_missing_inactive [engineer missing_row] \<and>
   calculate_comfort_score feature_columns [engineer missing_row] = [135 / 2]"
  using comfort_score_all_missing [of "[engineer missing_row]" feature_columns]
    missing_row_inactive
  by (simp add: feature_columns_def)

text \<open>
  The claim as stated fails on the pipeline's own frames: the particulate line
  \<open>202501011300,109,abc\<close> gives a row with every weather input missing and every flag
  inactive, and its score is 67.5, not 50. (The other lines are ordinary readings of
  station 108.)
\<close>

theorem comfort_score_all_missing_counterexample:
  "map (\<lambda>r. (isna (temperature r), isna (pm10 r), isna (uv_uvb r), isna (uv_uva r),
             isna (uv_euv r), is_rush_hour r, is_weekend r, temp_extreme r,
             comfort_score r, comfort_score r = 50))
     (filter (\<lambda>r. station_id r = ''109'')
        (create_ml_dataset
           (parse_asos_raw example_strptime 0 asos_line_52)
           (parse_pm10_raw example_strptime 0 (pm10_line_42 @ newline @ pm10_line_109_abc))
           (parse_uv_raw example_strptime 0 uv_line_005))) =
   [(True, True, True, True, True, False, False, False, 135 / 2, False)]"
proof -
  have "all_records [asos_52] [pm10_42, pm10_obs ''109'' VNone pm10_line_109_abc] [uv_005] =
        [full_row, missing_row]"
    by (simp add: fuse_eval float_eval obs_eval row_eval)
  then have "filter (\<lambda>r. station_id r = ''109'')
        (create_ml_dataset
           (parse_asos_raw example_strptime 0 asos_line_52)
           (parse_pm10_raw example_strptime 0 (pm10_line_42 @ newline @ pm10_line_109_abc))
           (parse_uv_raw example_strptime 0 uv_line_005)) =
        [feature.extend (engineer missing_row)
           (scored.fields (comfort_score_of_row feature_columns (engineer missing_row)))]"
    by (simp add: parse_asos_line parse_pm10_line parse_uv_line create_ml_dataset_rows
        add_engineered_features_rows merged_df_def row_eval key_order)
  then show ?thesis
    using missing_row_inactive
    by (simp add: missing_row_score all_missing_inactive_def)
qed

section \<open>Properties of the artifact store\<close>

lemma sorted_le_last:
  fixes xs :: "'a::linorder list"
  shows "sorted xs \<Longrightarrow> x \<in> set xs \<Longrightarrow> x \<le> last xs"
  by (induction xs) auto

lemma last_sort_Max:
  fixes xs :: "'a::linorder list"
  assumes "xs \<noteq> []"
  shows "last (sort xs) = Max (set xs)"
proof -
  have ne: "sort xs \<noteq> []"
    using assms by (metis length_sort length_0_conv)
  have "Max (set (sort xs)) = last (sort xs)"
  proof (rule Max_eqI)
    show "finite (set (sort xs))" by simp
    show "last (sort xs) \<in> set (sort xs)" using ne by (rule last_in_set)
    fix y assume "y \<in> set (sort xs)"
    then show "y \<le> last (sort xs)" by (intro sorted_le_last) simp_all
  qed
  then show ?thesis by simp
qed

text \<open>
  Claim C10. \<open>load_latest_ml_dataset\<close> answers the same for any two values of
  \<open>days_back\<close>. Its result is decided by the store alone: among the keys the store lists
  under \<open>ml_dataset/\<close> it takes those ending in \<open>.parquet\<close>, answers \<open>None\<close> when there is
  none, and otherwise reads the table stored at the greatest of them in lexicographic
  order. An error of the store or of the decoder is passed on unchanged.
\<close>

theorem load_latest_ml_dataset_ignores_days_back:
  "load_latest_ml_dataset read_parquet s3 d1 = load_latest_ml_dataset read_parquet s3 d2 \<and>
   load_latest_ml_dataset read_parquet s3 d1 =
     (case list_objects_v2 s3 ''ml_dataset/'' of
        Inl e \<Rightarrow> Inl e
      | Inr contents \<Rightarrow>
          (let parquet_keys =
                 filter (suffix ''.parquet'') (case contents of None \<Rightarrow> [] | Some ks \<Rightarrow> ks)
           in if parquet_keys = [] then Inr None
              else (case get_object s3 (Max (set parquet_keys)) of
                      Inl e \<Rightarrow> Inl e
                    | Inr body \<Rightarrow>
                        (case read_parquet body of
                           Inl e \<Rightarrow> Inl e
                         | Inr df \<Rightarrow> Inr (Some df)))))"
  by (auto simp add: load_latest_ml_dataset_def list_objects_def Let_def last_sort_Max
      split: sum.splits option.splits)

end
